theory Spec2Isabelle
  imports Main "HOL-Library.Word"
begin

unbundle bit_operations_syntax

section \<open>Machine types and byte order\<close>

text \<open>
  The packet editor of \<^verbatim>\<open>src/tcpedit/edit_packet.c\<close> works on header fields as the
  host loads them from the frame: a \<^verbatim>\<open>uint32_t\<close> address field holds the four bytes
  of the wire in network order, and \<^verbatim>\<open>htonl\<close>/\<^verbatim>\<open>ntohl\<close> convert between that
  and the host's numbers. The host's byte order is a parameter \<open>be\<close> of the model
  (\<open>True\<close> on a big-endian host, where the conversions are the identity).
\<close>

type_synonym u8 = "8 word"
type_synonym u16 = "16 word"
type_synonym u32 = "32 word"

definition bswap32 :: "u32 \<Rightarrow> u32" where
  "bswap32 x =
     push_bit 24 x OR push_bit 8 (x AND 0xff00) OR (drop_bit 8 x AND 0xff00) OR drop_bit 24 x"

definition bswap16 :: "u16 \<Rightarrow> u16" where
  "bswap16 x = push_bit 8 x OR drop_bit 8 x"

definition htonl :: "bool \<Rightarrow> u32 \<Rightarrow> u32" where
  "htonl be x = (if be then x else bswap32 x)"

definition ntohl :: "bool \<Rightarrow> u32 \<Rightarrow> u32" where
  "ntohl be x = (if be then x else bswap32 x)"

definition htons :: "bool \<Rightarrow> u16 \<Rightarrow> u16" where
  "htons be x = (if be then x else bswap16 x)"

definition ntohs :: "bool \<Rightarrow> u16 \<Rightarrow> u16" where
  "ntohs be x = (if be then x else bswap16 x)"

text \<open>
  What C leaves undefined is a value of the model, not a number: a shift by a count
  that is negative or not below the width of the promoted operand, a read or write
  through a null pointer, an index outside an array. \<^verbatim>\<open>errx\<close> ends the process.
\<close>

datatype c_error = UndefinedShift | NullDeref | OutOfBounds | ProcessExit

text \<open>\<^verbatim>\<open>x << n\<close> on a \<^verbatim>\<open>uint32_t\<close>, with \<open>n\<close> an \<^verbatim>\<open>int\<close>.\<close>

definition shl_u32 :: "u32 \<Rightarrow> int \<Rightarrow> c_error + u32" where
  "shl_u32 x n = (if n < 0 \<or> 32 \<le> n then Inl UndefinedShift else Inr (push_bit (nat n) x))"

text \<open>Sequencing of steps that may fail: the first failure is the result.\<close>

definition ebind :: "'e + 'a \<Rightarrow> ('a \<Rightarrow> 'e + 'b) \<Rightarrow> 'e + 'b" where
  "ebind m f = (case m of Inl e \<Rightarrow> Inl e | Inr x \<Rightarrow> f x)"

section \<open>Configuration\<close>

text \<open>
  Modelled from the spec: the declarations of \<^verbatim>\<open>tcpr_cidr_t\<close>, \<^verbatim>\<open>tcpr_cidrmap_t\<close>
  and \<^verbatim>\<open>tcpedit_t\<close> are in headers outside the file. The records hold the CIDR
  specification (address family, network value, prefix length), the (from, to) pair of
  a remap chain entry and the edit configuration (seed, skip-broadcast flag, TTL mode
  and value, truncation mode and MTU, the direct source and destination maps, the two
  chains), under the names the file reads them by. \<open>AF_OTHER\<close> is any family but
  the two the file tests for, \<open>TCPEDIT_TTL_MODE_INVALID\<close> any mode but the four it
  switches on. A \<^verbatim>\<open>next\<close>-linked chain of maps is a list, the null chain the empty
  list.
\<close>

datatype addr_family = AF_INET | AF_INET6 | AF_OTHER

record tcpr_cidr =
  family :: addr_family
  network :: u32
  network6 :: "u8 list"
  masklen :: int

record tcpr_cidrmap =
  cm_from :: tcpr_cidr
  cm_to :: tcpr_cidr

datatype ttl_mode_t =
  TCPEDIT_TTL_MODE_OFF | TCPEDIT_TTL_MODE_SET | TCPEDIT_TTL_MODE_ADD | TCPEDIT_TTL_MODE_SUB
  | TCPEDIT_TTL_MODE_INVALID

datatype fixlen_t =
  TCPEDIT_FIXLEN_OFF | TCPEDIT_FIXLEN_PAD | TCPEDIT_FIXLEN_TRUNC | TCPEDIT_FIXLEN_DEL

record tcpedit =
  seed :: u32
  skip_broadcast :: bool
  ttl_mode :: ttl_mode_t
  ttl_value :: u8
  fixlen :: fixlen_t
  mtu_truncate :: bool
  mtu :: int
  srcipmap :: "tcpr_cidrmap option"
  dstipmap :: "tcpr_cidrmap option"
  cidrmap1 :: "tcpr_cidrmap list"
  cidrmap2 :: "tcpr_cidrmap list"

section \<open>Address transforms\<close>

text \<open>\<^verbatim>\<open>is_unicast_ipv4\<close>: 0 when \<^verbatim>\<open>ntohl(ip) > 3758096384\<close>, else 1.\<close>

definition is_unicast_ipv4 :: "bool \<Rightarrow> u32 \<Rightarrow> bool" where
  "is_unicast_ipv4 be ip = (if 3758096384 < unat (ntohl be ip) then False else True)"

text \<open>\<^verbatim>\<open>randomize_ipv4_addr\<close>\<close>

definition randomize_ipv4_addr :: "bool \<Rightarrow> tcpedit \<Rightarrow> u32 \<Rightarrow> u32" where
  "randomize_ipv4_addr be cfg ip =
     (if skip_broadcast cfg \<and> \<not> is_unicast_ipv4 be ip then ip
      else (ip XOR htonl be (seed cfg)) - (ip AND htonl be (seed cfg)))"

text \<open>\<^verbatim>\<open>remap_ipv4\<close>\<close>

definition remap_ipv4 :: "bool \<Rightarrow> tcpedit \<Rightarrow> tcpr_cidr \<Rightarrow> u32 \<Rightarrow> c_error + u32" where
  "remap_ipv4 be cfg cidr original =
     (if family cidr \<noteq> AF_INET then Inr 0
      else if skip_broadcast cfg \<and> \<not> is_unicast_ipv4 be original then Inr original
      else
        (case shl_u32 0xffffffff (32 - masklen cidr) of
           Inl e \<Rightarrow> Inl e
         | Inr mask1 \<Rightarrow>
             let net = htonl be (network cidr) AND mask1;
                 mask2 = mask1 XOR 0xffffffff;
                 ipaddr = ntohl be original AND mask2;
                 result = net XOR ipaddr
             in Inr (htonl be result)))"

text \<open>
  \<^verbatim>\<open>struct tcpr_in6_addr\<close> is a union of sixteen bytes (\<^verbatim>\<open>tcpr_s6_addr\<close>) and four
  32-bit words (\<^verbatim>\<open>__u6_addr32\<close>) over the same storage: the model keeps the sixteen
  bytes as a list and loads and stores a word through the host's byte order.
\<close>

definition u32_of_bytes :: "u8 \<Rightarrow> u8 \<Rightarrow> u8 \<Rightarrow> u8 \<Rightarrow> u32" where
  "u32_of_bytes b0 b1 b2 b3 =
     ucast b0 OR push_bit 8 (ucast b1) OR push_bit 16 (ucast b2) OR push_bit 24 (ucast b3)"

definition load_u32 :: "bool \<Rightarrow> u8 list \<Rightarrow> nat \<Rightarrow> u32" where
  "load_u32 be a i =
     (if be then u32_of_bytes (a ! (4 * i + 3)) (a ! (4 * i + 2)) (a ! (4 * i + 1)) (a ! (4 * i))
      else u32_of_bytes (a ! (4 * i)) (a ! (4 * i + 1)) (a ! (4 * i + 2)) (a ! (4 * i + 3)))"

definition store_u32 :: "bool \<Rightarrow> u8 list \<Rightarrow> nat \<Rightarrow> u32 \<Rightarrow> u8 list" where
  "store_u32 be a i w =
     (if be then
        a[4 * i + 3 := ucast w, 4 * i + 2 := ucast (drop_bit 8 w),
          4 * i + 1 := ucast (drop_bit 16 w), 4 * i := ucast (drop_bit 24 w)]
      else
        a[4 * i := ucast w, 4 * i + 1 := ucast (drop_bit 8 w),
          4 * i + 2 := ucast (drop_bit 16 w), 4 * i + 3 := ucast (drop_bit 24 w)])"

text \<open>\<^verbatim>\<open>is_multicast_ipv6\<close>\<close>

definition is_multicast_ipv6 :: "u8 list \<Rightarrow> bool" where
  "is_multicast_ipv6 addr = (if addr ! 0 = 0xff then True else False)"

text \<open>
  \<^verbatim>\<open>randomize_ipv6_addr\<close>: the loop over the four words \<^verbatim>\<open>p[0..3]\<close>, then the fix-up
  of the first byte.
\<close>

fun randomize_words :: "bool \<Rightarrow> tcpedit \<Rightarrow> nat list \<Rightarrow> u8 list \<Rightarrow> u8 list" where
  "randomize_words be cfg [] addr = addr"
| "randomize_words be cfg (i # is) addr =
     randomize_words be cfg is
       (store_u32 be addr i
          ((load_u32 be addr i XOR htonl be (seed cfg)) - (load_u32 be addr i AND htonl be (seed cfg))))"

definition randomize_ipv6_addr :: "bool \<Rightarrow> tcpedit \<Rightarrow> u8 list \<Rightarrow> u8 list" where
  "randomize_ipv6_addr be cfg addr =
     (let was_multicast = is_multicast_ipv6 addr;
          addr1 = randomize_words be cfg [0, 1, 2, 3] addr
      in if was_multicast then addr1[0 := 0xff]
         else if is_multicast_ipv6 addr1 then addr1[0 := 0xaa]
         else addr1)"

text \<open>
  The arithmetic of \<^verbatim>\<open>remap_ipv6\<close> is on \<^verbatim>\<open>int\<close>: division and remainder truncate
  towards zero, and a shift count must lie in \<open>0..31\<close>. ISO C also leaves the left
  shift of a negative value undefined; GCC and Clang give the product wrapped to 32
  bits in two's complement, which is what \<open>shl_int\<close> returns for a count in range.
\<close>

definition c_div :: "int \<Rightarrow> int \<Rightarrow> int" where
  "c_div a b = sgn a * sgn b * (\<bar>a\<bar> div \<bar>b\<bar>)"

definition c_mod :: "int \<Rightarrow> int \<Rightarrow> int" where
  "c_mod a b = a - b * c_div a b"

definition shl_int :: "int \<Rightarrow> int \<Rightarrow> c_error + int" where
  "shl_int a n =
     (if n < 0 \<or> 32 \<le> n then Inl UndefinedShift
      else Inr (signed_take_bit 31 (a * 2 ^ nat n)))"

definition shr_int :: "int \<Rightarrow> int \<Rightarrow> c_error + int" where
  "shr_int a n =
     (if n < 0 \<or> 32 \<le> n then Inl UndefinedShift else Inr (a div 2 ^ nat n))"

text \<open>A read of \<^verbatim>\<open>tcpr_s6_addr[i]\<close>, an array of sixteen bytes, \<open>i\<close> an \<^verbatim>\<open>int\<close>.\<close>

definition in6_byte :: "u8 list \<Rightarrow> int \<Rightarrow> c_error + u8" where
  "in6_byte a i = (if i < 0 \<or> 16 \<le> i then Inl OutOfBounds else Inr (a ! nat i))"

text \<open>
  \<^verbatim>\<open>for (i = 0; i < j; i++) addr->tcpr_s6_addr[i] = cidr->u.network6.tcpr_s6_addr[i];\<close>
  returns the address and the value of \<open>i\<close> on exit.
\<close>

function copy_network_bytes :: "int \<Rightarrow> int \<Rightarrow> u8 list \<Rightarrow> u8 list \<Rightarrow> c_error + (u8 list \<times> int)" where
  "copy_network_bytes i j net addr =
     (if i < j then
        (if i < 0 \<or> 16 \<le> i then Inl OutOfBounds
         else copy_network_bytes (i + 1) j net (addr[nat i := net ! nat i]))
      else Inr (addr, i))"
  by pat_completeness auto
termination
  by (relation "measure (\<lambda>(i, j, net, addr). nat (j - i))") auto

declare copy_network_bytes.simps [simp del]

text \<open>
  The last assignment of \<^verbatim>\<open>remap_ipv6\<close>, on the values that \<open>i\<close> and \<open>k\<close> hold when
  it runs:
  \<^verbatim>\<open>addr[i] = (network6[j] & (0xff << (8 - k))) | (addr[i] & (0xff >> k));\<close>
  Its operands are taken left to right.
\<close>

definition partial_byte_assign :: "u8 list \<Rightarrow> int \<Rightarrow> int \<Rightarrow> int \<Rightarrow> u8 list \<Rightarrow> c_error + (int \<times> u8 list)" where
  "partial_byte_assign net j k i addr =
     ebind (in6_byte net j) (\<lambda>nb.
     ebind (shl_int 0xff (8 - k)) (\<lambda>m1.
     ebind (in6_byte addr i) (\<lambda>ab.
     ebind (shr_int 0xff k) (\<lambda>m2.
       Inr (1, addr[nat i := word_of_int ((uint nb AND m1) OR (uint ab AND m2))])))))"

text \<open>
  \<^verbatim>\<open>remap_ipv6\<close>. After the loop, \<open>k\<close> is overwritten with \<^verbatim>\<open>~0 << (8 - k)\<close> and
  \<open>i\<close> with \<^verbatim>\<open>addr[i] & k\<close>, and the last assignment runs on those.
\<close>

definition remap_ipv6 :: "tcpedit \<Rightarrow> tcpr_cidr \<Rightarrow> u8 list \<Rightarrow> c_error + (int \<times> u8 list)" where
  "remap_ipv6 cfg cidr addr =
     (if family cidr \<noteq> AF_INET6 then Inr (0, addr)
      else if skip_broadcast cfg \<and> is_multicast_ipv6 addr then Inr (0, addr)
      else
        ebind (copy_network_bytes 0 (c_div (masklen cidr) 8) (network6 cidr) addr) (\<lambda>(addr1, i).
          if c_mod (masklen cidr) 8 = 0 then Inr (1, addr1)
          else
            ebind (shl_int (- 1) (8 - c_mod (masklen cidr) 8)) (\<lambda>k.
            ebind (in6_byte addr1 i) (\<lambda>b.
              partial_byte_assign (network6 cidr) (c_div (masklen cidr) 8) k (uint b AND k) addr1))))"

text \<open>
  The splice of the partial final byte as the specification words it:
  \<^verbatim>\<open>(network_bits & mask) | (host_bits & ~mask)\<close>, the mask selecting the top
  \<open>masklen mod 8\<close> bits, after the full network bytes are copied. It is what
  \<open>remap_ipv6\<close> is compared with.
\<close>

definition spec_remap_ipv6 :: "tcpr_cidr \<Rightarrow> u8 list \<Rightarrow> u8 list" where
  "spec_remap_ipv6 cidr addr =
     (let j = nat (masklen cidr) div 8;
          k = nat (masklen cidr) mod 8;
          m = push_bit (8 - k) (0xff :: u8);
          addr1 = take j (network6 cidr) @ drop j addr
      in if k = 0 then addr1
         else addr1[j := (network6 cidr ! j AND m) OR (addr1 ! j AND NOT m)])"

section \<open>Headers\<close>

text \<open>
  Modelled from the spec: the header views over the frame (declared outside the file),
  with the fields the file reads or writes, as the host loads them (multi-byte fields in
  network order). \<open>ip_hl\<close> and \<open>th_off\<close> are 4-bit
  fields; the hop limit of \<^verbatim>\<open>ipv6_hdr_t\<close> is its field \<^verbatim>\<open>ip_hl\<close>, here \<open>ip6_hl\<close>.
\<close>

record ipv4_hdr =
  ip_hl :: "4 word"
  ip_len :: u16
  ip_off :: u16
  ip_ttl :: u8
  ip_p :: u8
  ip_sum :: u16
  ip_src :: u32
  ip_dst :: u32

record ipv6_hdr =
  ip6_len :: u16
  ip6_nh :: u8
  ip6_hl :: u8
  ip6_src :: "u8 list"
  ip6_dst :: "u8 list"

record tcp_hdr =
  th_off :: "4 word"

record pcap_pkthdr =
  caplen :: u32
  len :: u32

section \<open>TTL and hop limit\<close>

text \<open>
  \<^verbatim>\<open>rewrite_ipv4_ttl\<close> returns 0 or 1 and the header it leaves; a null \<open>ip_hdr\<close> is
  \<open>None\<close>. \<open>ttl_value\<close> is the 8-bit value of the configuration; the sum in ADD mode
  is taken on \<^verbatim>\<open>int\<close>.
\<close>

definition rewrite_ipv4_ttl :: "tcpedit \<Rightarrow> ipv4_hdr option \<Rightarrow> c_error + (int \<times> ipv4_hdr option)" where
  "rewrite_ipv4_ttl cfg ip_hdr =
     (case ip_hdr of
        None \<Rightarrow> Inr (0, None)
      | Some h \<Rightarrow>
          (case ttl_mode cfg of
             TCPEDIT_TTL_MODE_OFF \<Rightarrow> Inr (0, Some h)
           | TCPEDIT_TTL_MODE_SET \<Rightarrow>
               if ip_ttl h = ttl_value cfg then Inr (0, Some h)
               else Inr (1, Some (h\<lparr>ip_ttl := ttl_value cfg\<rparr>))
           | TCPEDIT_TTL_MODE_ADD \<Rightarrow>
               if 255 < uint (ip_ttl h) + uint (ttl_value cfg)
               then Inr (1, Some (h\<lparr>ip_ttl := 255\<rparr>))
               else Inr (1, Some (h\<lparr>ip_ttl := ip_ttl h + ttl_value cfg\<rparr>))
           | TCPEDIT_TTL_MODE_SUB \<Rightarrow>
               if ip_ttl h \<le> ttl_value cfg
               then Inr (1, Some (h\<lparr>ip_ttl := 1\<rparr>))
               else Inr (1, Some (h\<lparr>ip_ttl := ip_ttl h - ttl_value cfg\<rparr>))
           | TCPEDIT_TTL_MODE_INVALID \<Rightarrow> Inl ProcessExit))"

text \<open>\<^verbatim>\<open>rewrite_ipv6_hlim\<close>\<close>

definition rewrite_ipv6_hlim :: "tcpedit \<Rightarrow> ipv6_hdr option \<Rightarrow> c_error + (int \<times> ipv6_hdr option)" where
  "rewrite_ipv6_hlim cfg ip6_hdr =
     (case ip6_hdr of
        None \<Rightarrow> Inr (0, None)
      | Some h \<Rightarrow>
          (case ttl_mode cfg of
             TCPEDIT_TTL_MODE_OFF \<Rightarrow> Inr (0, Some h)
           | TCPEDIT_TTL_MODE_SET \<Rightarrow>
               if ip6_hl h = ttl_value cfg then Inr (0, Some h)
               else Inr (1, Some (h\<lparr>ip6_hl := ttl_value cfg\<rparr>))
           | TCPEDIT_TTL_MODE_ADD \<Rightarrow>
               if 255 < uint (ip6_hl h) + uint (ttl_value cfg)
               then Inr (1, Some (h\<lparr>ip6_hl := 255\<rparr>))
               else Inr (1, Some (h\<lparr>ip6_hl := ip6_hl h + ttl_value cfg\<rparr>))
           | TCPEDIT_TTL_MODE_SUB \<Rightarrow>
               if ip6_hl h \<le> ttl_value cfg
               then Inr (1, Some (h\<lparr>ip6_hl := 1\<rparr>))
               else Inr (1, Some (h\<lparr>ip6_hl := ip6_hl h - ttl_value cfg\<rparr>))
           | TCPEDIT_TTL_MODE_INVALID \<Rightarrow> Inl ProcessExit))"

section \<open>Truncated packets\<close>

text \<open>
  \<^verbatim>\<open>memset(pktdata + off, 0, n)\<close> on the frame buffer; a write past its end is out of
  bounds.
\<close>

definition memset_zero :: "u8 list \<Rightarrow> nat \<Rightarrow> nat \<Rightarrow> c_error + u8 list" where
  "memset_zero buf off n =
     (if length buf < off + n then Inl OutOfBounds
      else Inr (take off buf @ replicate n 0 @ drop (off + n) buf))"

text \<open>
  \<^verbatim>\<open>untrunc_packet\<close>. \<open>l2len\<close> is what \<^verbatim>\<open>layer2len(tcpedit)\<close> returns (a function of
  the link-layer plugin, outside the file). The result is the return value (0, 1 or
  -1) with the packet header, the buffer and the two header views as they are left.
  \<^verbatim>\<open>caplen - l2len\<close> is computed on 32 bits and \<^verbatim>\<open>htons\<close> takes its low 16 bits;
  \<^verbatim>\<open>sizeof(*ip6_hdr)\<close> is 40.
\<close>

definition untrunc_packet ::
  "bool \<Rightarrow> tcpedit \<Rightarrow> int \<Rightarrow> pcap_pkthdr \<Rightarrow> u8 list \<Rightarrow> ipv4_hdr option \<Rightarrow> ipv6_hdr option
     \<Rightarrow> c_error + (int \<times> pcap_pkthdr \<times> u8 list \<times> ipv4_hdr option \<times> ipv6_hdr option)" where
  "untrunc_packet be cfg l2len pkthdr pktdata ip_hdr ip6_hdr =
     (if (caplen pkthdr = len pkthdr \<or> (ip_hdr = None \<and> ip6_hdr = None)) \<and> \<not> mtu_truncate cfg
      then Inr (0, pkthdr, pktdata, ip_hdr, ip6_hdr)
      else if l2len < 0 then Inr (- 1, pkthdr, pktdata, ip_hdr, ip6_hdr)
      else if fixlen cfg = TCPEDIT_FIXLEN_PAD then
        (if caplen pkthdr < len pkthdr then
           ebind (memset_zero pktdata (unat (caplen pkthdr)) (unat (len pkthdr - caplen pkthdr)))
             (\<lambda>buf. Inr (1, pkthdr\<lparr>caplen := len pkthdr\<rparr>, buf, ip_hdr, ip6_hdr))
         else if len pkthdr < caplen pkthdr then Inr (- 1, pkthdr, pktdata, ip_hdr, ip6_hdr)
         else Inr (1, pkthdr, pktdata, ip_hdr, ip6_hdr))
      else if fixlen cfg = TCPEDIT_FIXLEN_TRUNC then
        (if len pkthdr \<noteq> caplen pkthdr then
           (case ip_hdr of
              None \<Rightarrow> Inl NullDeref
            | Some h \<Rightarrow>
                Inr (1, pkthdr\<lparr>len := caplen pkthdr\<rparr>, pktdata,
                     Some (h\<lparr>ip_len := htons be (ucast (caplen pkthdr - word_of_int l2len))\<rparr>),
                     ip6_hdr))
         else Inr (1, pkthdr\<lparr>len := caplen pkthdr\<rparr>, pktdata, ip_hdr, ip6_hdr))
      else if mtu_truncate cfg then
        (if (word_of_int (mtu cfg + l2len) :: u32) < len pkthdr then
           (let ph = pkthdr\<lparr>caplen := word_of_int (l2len + mtu cfg),
                             len := word_of_int (l2len + mtu cfg)\<rparr>
            in case ip_hdr of
                 Some h \<Rightarrow>
                   Inr (1, ph, pktdata,
                        Some (h\<lparr>ip_len := htons be (word_of_int (mtu cfg))\<rparr>), ip6_hdr)
               | None \<Rightarrow>
                   (case ip6_hdr of
                      Some h6 \<Rightarrow>
                        Inr (1, ph, pktdata, None,
                             Some (h6\<lparr>ip6_len := htons be (word_of_int (mtu cfg - 40))\<rparr>))
                    | None \<Rightarrow> Inr (0, ph, pktdata, None, None)))
         else Inr (1, pkthdr, pktdata, ip_hdr, ip6_hdr))
      else Inr (- 1, pkthdr, pktdata, ip_hdr, ip6_hdr))"

section \<open>Layer 7 data\<close>

text \<open>
  \<^verbatim>\<open>extract_data\<close> moves a pointer \<open>dataptr\<close> that starts at the local buffer
  \<^verbatim>\<open>ipbuff\<close>; the IPv4 header is where \<^verbatim>\<open>get_ipv4\<close> says. A pointer of the model is a
  region and a byte offset into it. \<^verbatim>\<open>get_ipv4\<close> and \<^verbatim>\<open>get_layer4_v4\<close> are outside the
  file: the first is given by its result \<open>found\<close> (the place and the fields of the header,
  \<open>None\<close> for a null pointer), the second is a parameter. The result is the number
  of bytes returned and the pointer \<^verbatim>\<open>memcpy\<close> copies them from (\<open>None\<close> on the
  \<^verbatim>\<open>nodata\<close> exits and when there is no IPv4 header, where nothing is copied).
\<close>

datatype region = IpBuff | PktData

type_synonym ptr = "region \<times> int"

definition ptr_add :: "ptr \<Rightarrow> int \<Rightarrow> ptr" where
  "ptr_add p n = (fst p, snd p + n)"

text \<open>
  Modelled from the spec: the protocol numbers of the IPv4 header and the fixed size of
  the UDP header, constants of headers outside the file.
\<close>

definition IPPROTO_IP :: u8 where "IPPROTO_IP = 0"
definition IPPROTO_ICMP :: u8 where "IPPROTO_ICMP = 1"
definition IPPROTO_TCP :: u8 where "IPPROTO_TCP = 6"
definition IPPROTO_UDP :: u8 where "IPPROTO_UDP = 17"
definition TCPR_UDP_H :: int where "TCPR_UDP_H = 8"

definition extract_data ::
  "bool \<Rightarrow> (ipv4_hdr \<Rightarrow> int \<Rightarrow> tcp_hdr option) \<Rightarrow> int \<Rightarrow> int \<Rightarrow> (ptr \<times> ipv4_hdr) option
     \<Rightarrow> c_error + (int \<times> ptr option)" where
  "extract_data be get_layer4_v4 l2len cap found =
     (case found of
        None \<Rightarrow> Inr (0, None)
      | Some (hdr_ptr, ip_hdr) \<Rightarrow>
          (let dataptr0 = (IpBuff, 0);
               datalen0 = (if uint (ntohs be (ip_len ip_hdr)) < cap
                           then uint (ntohs be (ip_len ip_hdr)) else cap - l2len);
               datalen = datalen0 - uint (ip_hl ip_hdr) * 4;
               dataptr = ptr_add dataptr0 (uint (ip_hl ip_hdr) * 4)
           in if datalen \<le> 0 then Inr (0, None)
              else if ip_p ip_hdr = IPPROTO_TCP then
                (case get_layer4_v4 ip_hdr datalen of
                   None \<Rightarrow> Inl NullDeref
                 | Some tcp \<Rightarrow>
                     if datalen - uint (th_off tcp) * 4 \<le> 0 then Inr (0, None)
                     else Inr (datalen - uint (th_off tcp) * 4,
                               Some (ptr_add dataptr (uint (th_off tcp) * 4))))
              else if ip_p ip_hdr = IPPROTO_UDP then
                (if datalen - TCPR_UDP_H \<le> 0 then Inr (0, None)
                 else Inr (datalen - TCPR_UDP_H, Some (ptr_add dataptr TCPR_UDP_H)))
              else if ip_p ip_hdr = IPPROTO_ICMP then Inr (0, None)
              else Inr (datalen, Some hdr_ptr)))"

section \<open>Checksums\<close>

text \<open>
  \<^verbatim>\<open>do_checksum\<close> is outside the file: it is a parameter that takes the packet from the
  IPv4 header on (the header's fields and the bytes after it), the protocol and the
  length, and returns its status and the packet it leaves. \<open>fix_ipv4_checksums\<close> returns
  its own status, the packet and the calls of \<^verbatim>\<open>do_checksum\<close> it made, in order, each
  with its protocol and length arguments.
\<close>

type_synonym ip_packet = "ipv4_hdr \<times> u8 list"

text \<open>
  Modelled from the spec: the three statuses (ERROR is negative, as the file's tests
  \<^verbatim>\<open>ret < 0\<close> take it) and the mask of the low 13 bits of the fragment offset field,
  constants of headers outside the file.
\<close>

definition TCPEDIT_ERROR :: int where "TCPEDIT_ERROR = - 1"
definition TCPEDIT_OK :: int where "TCPEDIT_OK = 0"
definition TCPEDIT_WARN :: int where "TCPEDIT_WARN = 1"
definition IP_OFFMASK :: u16 where "IP_OFFMASK = 0x1fff"

definition fix_ipv4_checksums ::
  "bool \<Rightarrow> (ip_packet \<Rightarrow> u8 \<Rightarrow> int \<Rightarrow> int \<times> ip_packet) \<Rightarrow> pcap_pkthdr \<Rightarrow> ip_packet
     \<Rightarrow> int \<times> ip_packet \<times> (u8 \<times> int) list" where
  "fix_ipv4_checksums be do_checksum pkthdr pkt =
     (let l4 = (caplen pkthdr = len pkthdr \<and> htons be (ip_off (fst pkt)) AND IP_OFFMASK = 0);
          l4_proto = ip_p (fst pkt);
          l4_len = uint (ntohs be (ip_len (fst pkt))) - uint (ip_hl (fst pkt)) * 4;
          (ret1, pkt1) = (if l4 then do_checksum pkt l4_proto l4_len else (0, pkt));
          calls1 = (if l4 then [(l4_proto, l4_len)] else [])
      in if ret1 < 0 then (TCPEDIT_ERROR, pkt1, calls1)
         else
           (let l3_len = uint (ntohs be (ip_len (fst pkt1)));
                (ret2, pkt2) = do_checksum pkt1 IPPROTO_IP l3_len;
                calls2 = calls1 @ [(IPPROTO_IP, l3_len)]
            in if ret2 < 0 then (TCPEDIT_ERROR, pkt2, calls2)
               else if ret1 = TCPEDIT_WARN \<or> ret2 = TCPEDIT_WARN then (TCPEDIT_WARN, pkt2, calls2)
               else (TCPEDIT_OK, pkt2, calls2)))"

section \<open>Subnet remapping of an IPv4 header\<close>

datatype tcpr_dir = TCPR_DIR_C2S | TCPR_DIR_S2C | TCPR_DIR_OTHER

text \<open>
  The direct source and destination maps of \<^verbatim>\<open>rewrite_ipv4l3\<close>: a field that lies in
  the map's \<open>from\<close> block is assigned what \<^verbatim>\<open>remap_ipv4\<close> returns for the \<open>to\<close> block.
  \<^verbatim>\<open>ip_in_cidr\<close> is outside the file and is the parameter \<open>inc\<close>.
\<close>

definition remap_src :: "bool \<Rightarrow> tcpedit \<Rightarrow> tcpr_cidrmap \<Rightarrow> ipv4_hdr \<Rightarrow> c_error + ipv4_hdr" where
  "remap_src be cfg m h =
     ebind (remap_ipv4 be cfg (cm_to m) (ip_src h)) (\<lambda>v. Inr (h\<lparr>ip_src := v\<rparr>))"

definition remap_dst :: "bool \<Rightarrow> tcpedit \<Rightarrow> tcpr_cidrmap \<Rightarrow> ipv4_hdr \<Rightarrow> c_error + ipv4_hdr" where
  "remap_dst be cfg m h =
     ebind (remap_ipv4 be cfg (cm_to m) (ip_dst h)) (\<lambda>v. Inr (h\<lparr>ip_dst := v\<rparr>))"

definition direct_maps ::
  "bool \<Rightarrow> (tcpr_cidr \<Rightarrow> u32 \<Rightarrow> bool) \<Rightarrow> tcpedit \<Rightarrow> ipv4_hdr \<Rightarrow> c_error + ipv4_hdr" where
  "direct_maps be inc cfg h =
     ebind (case srcipmap cfg of
              None \<Rightarrow> Inr h
            | Some m \<Rightarrow> if inc (cm_from m) (ip_src h) then remap_src be cfg m h else Inr h)
       (\<lambda>h1. case dstipmap cfg of
                None \<Rightarrow> Inr h1
              | Some m \<Rightarrow> if inc (cm_from m) (ip_dst h1) then remap_dst be cfg m h1 else Inr h1)"

text \<open>
  The \<^verbatim>\<open>do ... while (loop)\<close> of \<^verbatim>\<open>rewrite_ipv4l3\<close>. The two cursors are the chains
  from the current entry on, so \<^verbatim>\<open>cidrmap1->next == NULL\<close> is an empty tail and a null
  cursor an empty list, whose use is a null dereference. It returns the header
  and \<^verbatim>\<open>diddst + didsrc\<close>.
\<close>

function rewrite_loop ::
  "bool \<Rightarrow> (tcpr_cidr \<Rightarrow> u32 \<Rightarrow> bool) \<Rightarrow> tcpedit \<Rightarrow> tcpr_cidrmap list \<Rightarrow> tcpr_cidrmap list
     \<Rightarrow> bool \<Rightarrow> bool \<Rightarrow> ipv4_hdr \<Rightarrow> c_error + (ipv4_hdr \<times> int)" where
  "rewrite_loop be inc cfg chain1 chain2 didsrc diddst h =
     (case chain2 of
        [] \<Rightarrow> Inl NullDeref
      | c2 # next2 \<Rightarrow>
          ebind (if \<not> diddst \<and> inc (cm_from c2) (ip_dst h)
                 then ebind (remap_dst be cfg c2 h) (\<lambda>h1. Inr (h1, True))
                 else Inr (h, diddst))
            (\<lambda>(h1, diddst1).
               case chain1 of
                 [] \<Rightarrow> Inl NullDeref
               | c1 # next1 \<Rightarrow>
                   ebind (if \<not> didsrc \<and> inc (cm_from c1) (ip_src h1)
                          then ebind (remap_src be cfg c1 h1) (\<lambda>h2. Inr (h2, True))
                          else Inr (h1, didsrc))
                     (\<lambda>(h2, didsrc1).
                        if \<not> (diddst1 \<and> didsrc1) \<and> \<not> (next1 = [] \<and> next2 = [])
                        then rewrite_loop be inc cfg
                               (if next1 \<noteq> [] then next1 else chain1)
                               (if next2 \<noteq> [] then next2 else chain2)
                               didsrc1 diddst1 h2
                        else Inr (h2, (if diddst1 then 1 else 0) + (if didsrc1 then 1 else 0)))))"
  by pat_completeness auto
termination
  by (relation "measure (\<lambda>(be, inc, cfg, chain1, chain2, didsrc, diddst, h).
        length chain1 + length chain2)")
     (auto split: if_splits)

declare rewrite_loop.simps [simp del]

text \<open>\<^verbatim>\<open>rewrite_ipv4l3\<close>\<close>

definition rewrite_ipv4l3 ::
  "bool \<Rightarrow> (tcpr_cidr \<Rightarrow> u32 \<Rightarrow> bool) \<Rightarrow> tcpedit \<Rightarrow> ipv4_hdr \<Rightarrow> tcpr_dir
     \<Rightarrow> c_error + (ipv4_hdr \<times> int)" where
  "rewrite_ipv4l3 be inc cfg ip_hdr direction =
     ebind (direct_maps be inc cfg ip_hdr) (\<lambda>h.
       if cidrmap1 cfg = [] then Inr (h, 0)
       else if direction = TCPR_DIR_C2S
         then rewrite_loop be inc cfg (cidrmap1 cfg) (cidrmap2 cfg) False False h
         else rewrite_loop be inc cfg (cidrmap2 cfg) (cidrmap1 cfg) False False h)"

text \<open>
  Modelled from the spec: \<^verbatim>\<open>ip_in_cidr\<close> (of the CIDR library, outside the file) says
  whether an address falls within a CIDR block: the block is IPv4 and the address has
  the block's leading \<open>masklen\<close> bits. It instantiates \<open>inc\<close> in the examples.
\<close>

definition ip_in_cidr :: "bool \<Rightarrow> tcpr_cidr \<Rightarrow> u32 \<Rightarrow> bool" where
  "ip_in_cidr be cidr ip =
     (family cidr = AF_INET \<and> 0 \<le> masklen cidr \<and> masklen cidr \<le> 32 \<and>
      drop_bit (nat (32 - masklen cidr)) (ntohl be ip)
        = drop_bit (nat (32 - masklen cidr)) (ntohl be (network cidr)))"

section \<open>Example inputs\<close>

text \<open>
  A configuration with every edit switched off, and a TCP header from 192.168.55.123
  to 8.8.8.8 as a big-endian host loads it; the examples below update them.
\<close>

definition example_cfg :: tcpedit where
  "example_cfg =
     \<lparr>seed = 0, skip_broadcast = False, ttl_mode = TCPEDIT_TTL_MODE_OFF, ttl_value = 0,
      fixlen = TCPEDIT_FIXLEN_OFF, mtu_truncate = False, mtu = 1500,
      srcipmap = None, dstipmap = None, cidrmap1 = [], cidrmap2 = []\<rparr>"

definition example_hdr :: ipv4_hdr where
  "example_hdr =
     \<lparr>ip_hl = 5, ip_len = 40, ip_off = 0, ip_ttl = 64, ip_p = 6, ip_sum = 0,
      ip_src = 0xC0A8377B, ip_dst = 0x08080808\<rparr>"

definition cidr4 :: "u32 \<Rightarrow> int \<Rightarrow> tcpr_cidr" where
  "cidr4 net n = \<lparr>family = AF_INET, network = net, network6 = [], masklen = n\<rparr>"

definition cidr6 :: "u8 list \<Rightarrow> int \<Rightarrow> tcpr_cidr" where
  "cidr6 net n = \<lparr>family = AF_INET6, network = 0, network6 = net, masklen = n\<rparr>"

text \<open>
  Two chains of different lengths: 10.0.0.0/8 to 172.16.0.0/16, then 192.168.0.0/16 to
  10.10.0.0/16; and 8.8.8.0/24 to 9.9.9.0/24.
\<close>

definition example_primary :: "tcpr_cidrmap list" where
  "example_primary =
     [\<lparr>cm_from = cidr4 0x0A000000 8, cm_to = cidr4 0xAC100000 16\<rparr>,
      \<lparr>cm_from = cidr4 0xC0A80000 16, cm_to = cidr4 0x0A0A0000 16\<rparr>]"

definition example_secondary :: "tcpr_cidrmap list" where
  "example_secondary = [\<lparr>cm_from = cidr4 0x08080800 24, cm_to = cidr4 0x09090900 24\<rparr>]"


text \<open>A source map from 192.168.0.0/16 onto the IPv6 block 2001:db8::/32.\<close>

definition example_mismatch :: tcpr_cidrmap where
  "example_mismatch =
     \<lparr>cm_from = cidr4 0xC0A80000 16,
      cm_to = cidr6 [0x20, 0x01, 0x0d, 0xb8, 0, 0, 0, 0, 0, 0, 0, 0, 0, 0, 0, 0] 32\<rparr>"

text \<open>The block 2001:db8:0:10::/60 and the address fd00:abcd:1234:5678::1.\<close>

definition example_net60 :: tcpr_cidr where
  "example_net60 = cidr6 [0x20, 0x01, 0x0d, 0xb8, 0, 0, 0, 0x10, 0, 0, 0, 0, 0, 0, 0, 0] 60"

definition example_addr6 :: "u8 list" where
  "example_addr6 = [0xfd, 0x00, 0xab, 0xcd, 0x12, 0x34, 0x56, 0x78, 0, 0, 0, 0, 0, 0, 0, 1]"

text \<open>
  A stand-in for \<^verbatim>\<open>do_checksum\<close> that leaves a trace in the packet: it stores the
  length in the header's checksum field, appends the protocol to the bytes, and answers
  the IP header checksum with a warning.
\<close>

definition example_checksum :: "ip_packet \<Rightarrow> u8 \<Rightarrow> int \<Rightarrow> int \<times> ip_packet" where
  "example_checksum p proto n =
     (if proto = IPPROTO_IP then 1 else 0, ((fst p)\<lparr>ip_sum := word_of_int n\<rparr>, snd p @ [proto]))"

section \<open>Byte order and bit lemmas\<close>

lemma mask_ff00: "(0xff00 :: u32) = push_bit 8 (mask 8)"
  by (simp add: mask_eq_exp_minus_1)

lemma bswap32_bswap32: "bswap32 (bswap32 x) = x"
proof (rule bit_word_eqI)
  fix n :: nat
  assume "n < LENGTH(32)"
  then consider "n < 8" | "8 \<le> n \<and> n < 16" | "16 \<le> n \<and> n < 24" | "24 \<le> n \<and> n < 32"
    by fastforce
  then show "bit (bswap32 (bswap32 x)) n = bit x n"
    unfolding bswap32_def mask_ff00
    by cases (auto simp add: bit_simps dest: bit_imp_le_length)
qed

lemma ntohl_htonl: "ntohl be (htonl be x) = x"
  by (simp add: ntohl_def htonl_def bswap32_bswap32)

lemma htonl_zero: "htonl be 0 = 0"
  by (simp add: htonl_def bswap32_def)

lemma all_ones: "(0xffffffff :: u32) = - 1"
  by simp

lemma shl_all_ones:
  "0 \<le> n \<Longrightarrow> n < 32 \<Longrightarrow> shl_u32 0xffffffff n = Inr (NOT (mask (nat n)))"
  unfolding all_ones by (simp add: shl_u32_def)

lemma splice_high:
  "drop_bit k ((n AND NOT (mask k)) XOR (a AND (NOT (mask k) XOR 0xffffffff))) = drop_bit k (n :: u32)"
  unfolding all_ones by (rule bit_word_eqI) (auto simp add: bit_simps dest: bit_imp_le_length)

lemma splice_low:
  "take_bit k ((n AND NOT (mask k)) XOR (a AND (NOT (mask k) XOR 0xffffffff))) = take_bit k (a :: u32)"
  unfolding all_ones by (rule bit_word_eqI) (auto simp add: bit_simps)

section \<open>Remapping an IPv4 address\<close>

text \<open>
  For a prefix length from 1 to 32, \<open>remap_ipv4\<close> returns an address whose leading
  \<open>masklen\<close> bits (of its big-endian value) are the network's and whose remaining bits
  are the original's.
\<close>

lemma remap_ipv4_splice:
  assumes "family cidr = AF_INET" and "0 < masklen cidr" and "masklen cidr \<le> 32"
    and "skip_broadcast cfg = False \<or> is_unicast_ipv4 be a"
  shows "\<exists>r. remap_ipv4 be cfg cidr a = Inr r
     \<and> drop_bit (nat (32 - masklen cidr)) (ntohl be r)
         = drop_bit (nat (32 - masklen cidr)) (ntohl be (network cidr))
     \<and> take_bit (nat (32 - masklen cidr)) (ntohl be r)
         = take_bit (nat (32 - masklen cidr)) (ntohl be a)"
proof -
  let ?k = "nat (32 - masklen cidr)"
  let ?r = "(htonl be (network cidr) AND NOT (mask ?k))
              XOR (ntohl be a AND (NOT (mask ?k) XOR 0xffffffff))"
  have sh: "shl_u32 0xffffffff (32 - masklen cidr) = Inr (NOT (mask ?k))"
    using assms(2,3) by (intro shl_all_ones) simp_all
  have r: "remap_ipv4 be cfg cidr a = Inr (htonl be ?r)"
    using assms(1,4) unfolding remap_ipv4_def sh by (auto simp add: Let_def)
  have hn: "htonl be (network cidr) = ntohl be (network cidr)"
    by (simp add: htonl_def ntohl_def)
  have "drop_bit ?k (ntohl be (htonl be ?r)) = drop_bit ?k (ntohl be (network cidr))"
    unfolding ntohl_htonl hn by (rule splice_high)
  moreover have "take_bit ?k (ntohl be (htonl be ?r)) = take_bit ?k (ntohl be a)"
    unfolding ntohl_htonl by (rule splice_low)
  ultimately show ?thesis
    using r by blast
qed

text \<open>
  The two examples of the source's comment, on either byte order: 10.0.0.0/8 and
  192.168.55.123 give 10.168.55.123; 10.150.9.0/24 and 192.168.55.123 give 10.150.9.123.
\<close>

lemma remap_ipv4_example_8:
  "remap_ipv4 be (cfg\<lparr>skip_broadcast := False\<rparr>) (cidr4 (htonl be 0x0A000000) 8)
     (htonl be 0xC0A8377B) = Inr (htonl be 0x0AA8377B)"
  by (cases be)
     (simp_all add: remap_ipv4_def cidr4_def shl_u32_def htonl_def ntohl_def bswap32_def)

lemma remap_ipv4_example_24:
  "remap_ipv4 be (cfg\<lparr>skip_broadcast := False\<rparr>) (cidr4 (htonl be 0x0A960900) 24)
     (htonl be 0xC0A8377B) = Inr (htonl be 0x0A96097B)"
  by (cases be)
     (simp_all add: remap_ipv4_def cidr4_def shl_u32_def htonl_def ntohl_def bswap32_def)

text \<open>
  Claim C1: for every IPv4 CIDR (network, prefix length) and every address that is not
  skipped, \<open>remap_ipv4\<close> returns an address with the network's leading bits and the
  original's remaining bits. The claim covers the prefix length 0, where the whole
  original address should come back. There the source computes
  \<^verbatim>\<open>mask << (32 - cidr->masklen)\<close>, a shift of a 32-bit value by 32 bits, which C leaves
  undefined, so the function has no defined result for any network and address.
\<close>

theorem remap_ipv4_prefix0_undefined:
  "remap_ipv4 be (cfg\<lparr>skip_broadcast := False\<rparr>) (cidr4 net 0) a = Inl UndefinedShift"
  by (simp add: remap_ipv4_def cidr4_def shl_u32_def)

section \<open>Remapping an IPv6 address\<close>

lemma c_mod_8_range: "- 8 < c_mod m 8 \<and> c_mod m 8 < 8"
proof (cases "0 \<le> m")
  case True
  then have "c_div m 8 = m div 8"
    by (cases "m = 0") (simp_all add: c_div_def)
  then have "c_mod m 8 = m mod 8"
    by (simp add: c_mod_def minus_mult_div_eq_mod)
  moreover have "0 \<le> m mod 8" "m mod 8 < 8" by simp_all
  ultimately show ?thesis by linarith
next
  case False
  then have "c_div m 8 = - ((- m) div 8)"
    by (simp add: c_div_def)
  then have "c_mod m 8 = - ((- m) - 8 * ((- m) div 8))"
    by (simp add: c_mod_def)
  then have "c_mod m 8 = - ((- m) mod 8)"
    by (simp only: minus_mult_div_eq_mod)
  moreover have "0 \<le> (- m) mod 8" "(- m) mod 8 < 8" by simp_all
  ultimately show ?thesis by linarith
qed

lemma signed_take_bit_neg_pow:
  assumes "n < 32"
  shows "signed_take_bit 31 ((- 1) * 2 ^ n :: int) = - (2 ^ n)"
proof -
  from assms have "n \<le> 31" by simp
  then have le: "(2::int) ^ n \<le> 2 ^ 31" by (rule power_increasing) simp
  have a: "- ((2::int) ^ 31) \<le> - (2 ^ n)" using le by linarith
  have "(0::int) < 2 ^ n" by simp
  then have b: "- ((2::int) ^ n) < 2 ^ 31" by (smt (verit) zero_less_power)
  have "signed_take_bit 31 (- ((2::int) ^ n)) = - (2 ^ n)"
    using a b by (rule signed_take_bit_int_eq_self)
  then show ?thesis by simp
qed

lemma shl_int_minus_one:
  assumes "0 \<le> n" and "n < 32"
  shows "shl_int (- 1) n = Inr (- (2 ^ nat n))"
proof -
  have "nat n < 32" using assms by simp
  then have "signed_take_bit 31 ((- 1) * 2 ^ nat n :: int) = - (2 ^ nat n)"
    by (rule signed_take_bit_neg_pow)
  then show ?thesis using assms by (simp add: shl_int_def)
qed

lemma partial_byte_assign_negative_k:
  "k < 0 \<Longrightarrow> \<exists>e. partial_byte_assign net j k i addr = Inl e"
  by (simp add: partial_byte_assign_def ebind_def shr_int_def split: sum.splits)

text \<open>
  Whenever the prefix length is not a multiple of 8 and the address is not skipped, the
  overwritten \<open>k\<close> is negative when the last assignment shifts by it: \<open>remap_ipv6\<close>
  has no defined result, whatever the address.
\<close>

lemma remap_ipv6_partial_byte_undefined:
  assumes "family cidr = AF_INET6"
    and "skip_broadcast cfg = False \<or> is_multicast_ipv6 addr = False"
    and "c_mod (masklen cidr) 8 \<noteq> 0"
  shows "\<exists>e. remap_ipv6 cfg cidr addr = Inl e"
proof -
  let ?k0 = "c_mod (masklen cidr) 8"
  let ?k1 = "- ((2::int) ^ nat (8 - ?k0))"
  let ?j = "c_div (masklen cidr) 8"
  have rng: "0 \<le> 8 - ?k0" "8 - ?k0 < 32"
    using c_mod_8_range [of "masklen cidr"] by simp_all
  have k1: "shl_int (- 1) (8 - ?k0) = Inr ?k1"
    using rng by (rule shl_int_minus_one)
  have neg: "?k1 < 0" by simp
  have unfold: "remap_ipv6 cfg cidr addr =
      ebind (copy_network_bytes 0 ?j (network6 cidr) addr) (\<lambda>(addr1, i).
        ebind (in6_byte addr1 i) (\<lambda>b.
          partial_byte_assign (network6 cidr) ?j ?k1 (uint b AND ?k1) addr1))"
    using assms by (auto simp add: remap_ipv6_def k1 ebind_def split: sum.splits)
  show ?thesis
  proof (cases "copy_network_bytes 0 ?j (network6 cidr) addr")
    case (Inl e)
    then show ?thesis unfolding unfold by (simp add: ebind_def)
  next
    case (Inr p)
    obtain addr1 i where p: "p = (addr1, i)" by (cases p)
    show ?thesis
    proof (cases "in6_byte addr1 i")
      case (Inl e)
      then show ?thesis unfolding unfold Inr p by (simp add: ebind_def)
    next
      case b: (Inr b)
      obtain e where "partial_byte_assign (network6 cidr) ?j ?k1 (uint b AND ?k1) addr1 = Inl e"
        using partial_byte_assign_negative_k [OF neg] by blast
      then show ?thesis unfolding unfold Inr p by (simp add: ebind_def b)
    qed
  qed
qed

text \<open>
  Claim C2: for a prefix length that is not a multiple of 8, \<open>remap_ipv6\<close> copies the
  full network bytes and splices the partial final byte as
  \<^verbatim>\<open>(network_bits & mask) | (host_bits & ~mask)\<close>, leaving the other host bytes as they
  were. That is \<open>spec_remap_ipv6\<close>: onto 2001:db8:0:10::/60 the address
  fd00:abcd:1234:5678::1 becomes 2001:db8:0:18::1. The source does not get there: it
  overwrites \<open>k\<close> with the mask \<^verbatim>\<open>~0 << (8 - k)\<close> (here -16) and \<open>i\<close> with
  \<^verbatim>\<open>addr[i] & k\<close> (here 0x78 & -16 = 112), then uses them as the shift count and the
  index of the last assignment, which writes \<^verbatim>\<open>addr->tcpr_s6_addr[112]\<close>, outside the
  sixteen bytes of the address.
\<close>

theorem remap_ipv6_partial_byte_out_of_bounds:
  "remap_ipv6 cfg example_net60 example_addr6 = Inl OutOfBounds
   \<and> spec_remap_ipv6 example_net60 example_addr6
       = [0x20, 0x01, 0x0d, 0xb8, 0, 0, 0, 0x18, 0, 0, 0, 0, 0, 0, 0, 1]"
  by (simp add: remap_ipv6_def example_net60_def example_addr6_def cidr6_def
        is_multicast_ipv6_def c_div_def c_mod_def copy_network_bytes.simps ebind_def
        shl_int_def in6_byte_def partial_byte_assign_def spec_remap_ipv6_def)

section \<open>Randomizing addresses\<close>

lemma randomize_ipv4_addr_skips_above_224:
  "3758096384 < unat (ntohl be a)
     \<Longrightarrow> randomize_ipv4_addr be (cfg\<lparr>skip_broadcast := True\<rparr>) a = a"
  by (simp add: randomize_ipv4_addr_def is_unicast_ipv4_def)

text \<open>
  Claim C4: with \<open>skip_broadcast\<close> set, \<open>randomize_ipv4_addr\<close> returns unchanged every
  address whose big-endian value is at least 3758096384, 224.0.0.0 itself included.
  The comment of \<^verbatim>\<open>is_unicast_ipv4\<close> says the same (\<^verbatim>\<open>224.0.0.0 or greater\<close>), but its
  test is \<^verbatim>\<open>ntohl(ip) > 3758096384\<close>: 224.0.0.0 counts as unicast and is randomized.
  With seed 1 it becomes 224.0.0.1, on either byte order.
\<close>

theorem randomize_ipv4_addr_changes_224_0_0_0:
  "unat (ntohl be (htonl be 0xE0000000)) = 3758096384
   \<and> randomize_ipv4_addr be (cfg\<lparr>seed := 1, skip_broadcast := True\<rparr>) (htonl be 0xE0000000)
       = htonl be 0xE0000001
   \<and> htonl be 0xE0000001 \<noteq> htonl be 0xE0000000"
  by (cases be)
     (simp_all add: randomize_ipv4_addr_def is_unicast_ipv4_def htonl_def ntohl_def bswap32_def)

lemma u32_of_bytes_byte0: "ucast (u32_of_bytes b0 b1 b2 b3) = b0"
  unfolding u32_of_bytes_def
  by (rule bit_word_eqI) (auto simp add: bit_simps)

lemma u32_of_bytes_byte1: "ucast (drop_bit 8 (u32_of_bytes b0 b1 b2 b3)) = b1"
  unfolding u32_of_bytes_def
  by (rule bit_word_eqI) (auto simp add: bit_simps dest: bit_imp_le_length)

lemma u32_of_bytes_byte2: "ucast (drop_bit 16 (u32_of_bytes b0 b1 b2 b3)) = b2"
  unfolding u32_of_bytes_def
  by (rule bit_word_eqI) (auto simp add: bit_simps dest: bit_imp_le_length)

lemma u32_of_bytes_byte3: "ucast (drop_bit 24 (u32_of_bytes b0 b1 b2 b3)) = b3"
  unfolding u32_of_bytes_def
  by (rule bit_word_eqI) (auto simp add: bit_simps dest: bit_imp_le_length)

lemma store_load_u32: "store_u32 be a i (load_u32 be a i) = a"
  by (simp add: store_u32_def load_u32_def u32_of_bytes_byte0 u32_of_bytes_byte1
        u32_of_bytes_byte2 u32_of_bytes_byte3)

lemma randomize_words_seed_zero:
  "randomize_words be (cfg\<lparr>seed := 0\<rparr>) is addr = addr"
  by (induction "is" arbitrary: addr) (simp_all add: htonl_zero store_load_u32)

text \<open>
  Claim C10: with the seed 0 the randomization is the identity: \<open>randomize_ipv4_addr\<close>
  returns every address unchanged, and \<open>randomize_ipv6_addr\<close> leaves all sixteen bytes
  of every address unchanged, the first byte included.
\<close>

theorem randomize_seed_zero_identity:
  "randomize_ipv4_addr be (cfg\<lparr>seed := 0\<rparr>) ip = ip
   \<and> randomize_ipv6_addr be (cfg\<lparr>seed := 0\<rparr>) addr = addr"
proof
  show "randomize_ipv4_addr be (cfg\<lparr>seed := 0\<rparr>) ip = ip"
    by (simp add: randomize_ipv4_addr_def htonl_zero)
  have first: "addr ! 0 = 0xff \<Longrightarrow> addr[0 := 0xff] = addr"
    by (metis list_update_id)
  show "randomize_ipv6_addr be (cfg\<lparr>seed := 0\<rparr>) addr = addr"
    unfolding randomize_ipv6_addr_def randomize_words_seed_zero
    by (simp add: is_multicast_ipv6_def Let_def first)
qed

section \<open>Rewriting the addresses of an IPv4 header\<close>

text \<open>
  Claim C3: when the \<open>to\<close> block of a configured source or destination map is not an
  IPv4 block, \<open>rewrite_ipv4l3\<close> leaves the matching address field unchanged. In the
  source \<open>remap_ipv4\<close> answers a family mismatch with \<^verbatim>\<open>return 0\<close>, and
  \<open>rewrite_ipv4l3\<close> assigns what it returns to the field: a source address inside the
  map's \<open>from\<close> block becomes 0.0.0.0, and so does a destination address. (The skipped-broadcast exit of the same function
  returns \<open>original\<close>, and \<open>remap_ipv6\<close> leaves the address alone on a mismatch.)
\<close>

theorem rewrite_ipv4l3_family_mismatch_zeroes_field:
  assumes "cidrmap1 cfg = []" and "family (cm_to m) \<noteq> AF_INET"
  shows "(srcipmap cfg = Some m \<and> dstipmap cfg = None \<and> inc (cm_from m) (ip_src h) \<longrightarrow>
            rewrite_ipv4l3 be inc cfg h direction = Inr (h\<lparr>ip_src := 0\<rparr>, 0))
       \<and> (srcipmap cfg = None \<and> dstipmap cfg = Some m \<and> inc (cm_from m) (ip_dst h) \<longrightarrow>
            rewrite_ipv4l3 be inc cfg h direction = Inr (h\<lparr>ip_dst := 0\<rparr>, 0))"
  using assms
  by (simp add: rewrite_ipv4l3_def direct_maps_def remap_src_def remap_dst_def remap_ipv4_def
        ebind_def)

theorem rewrite_ipv4l3_family_mismatch_example:
  "ip_src example_hdr = 0xC0A8377B
   \<and> ip_in_cidr True (cm_from example_mismatch) (ip_src example_hdr)
   \<and> family (cm_to example_mismatch) = AF_INET6
   \<and> rewrite_ipv4l3 True (ip_in_cidr True) (example_cfg\<lparr>srcipmap := Some example_mismatch\<rparr>)
         example_hdr TCPR_DIR_C2S
       = Inr (example_hdr\<lparr>ip_src := 0\<rparr>, 0)
   \<and> ip_dst (example_hdr\<lparr>ip_dst := 0xC0A80001\<rparr>) = 0xC0A80001
   \<and> rewrite_ipv4l3 True (ip_in_cidr True) (example_cfg\<lparr>dstipmap := Some example_mismatch\<rparr>)
         (example_hdr\<lparr>ip_dst := 0xC0A80001\<rparr>) TCPR_DIR_C2S
       = Inr (example_hdr\<lparr>ip_dst := 0\<rparr>, 0)"
  using rewrite_ipv4l3_family_mismatch_zeroes_field
    [where cfg = "example_cfg\<lparr>srcipmap := Some example_mismatch\<rparr>" and m = example_mismatch
       and inc = "ip_in_cidr True" and h = example_hdr and be = True
       and direction = TCPR_DIR_C2S]
    rewrite_ipv4l3_family_mismatch_zeroes_field
    [where cfg = "example_cfg\<lparr>dstipmap := Some example_mismatch\<rparr>" and m = example_mismatch
       and inc = "ip_in_cidr True" and h = "example_hdr\<lparr>ip_dst := 0xC0A80001\<rparr>" and be = True
       and direction = TCPR_DIR_C2S]
  by (simp add: example_cfg_def example_mismatch_def example_hdr_def cidr4_def cidr6_def
        ip_in_cidr_def ntohl_def)

lemma rewrite_loop_two_one:
  assumes dst: "inc (cm_from s1) (ip_dst h)"
    and src1: "\<not> inc (cm_from p1) (ip_src h)"
    and src2: "inc (cm_from p2) (ip_src h)"
    and rd: "remap_ipv4 be cfg (cm_to s1) (ip_dst h) = Inr d"
    and rs: "remap_ipv4 be cfg (cm_to p2) (ip_src h) = Inr s"
  shows "rewrite_loop be inc cfg [p1, p2] [s1] False False h
           = Inr (h\<lparr>ip_dst := d, ip_src := s\<rparr>, 2)"
proof -
  let ?h1 = "h\<lparr>ip_dst := d\<rparr>"
  have step1: "rewrite_loop be inc cfg [p1, p2] [s1] False False h
      = rewrite_loop be inc cfg [p2] [s1] False True ?h1"
    using dst src1 rd
    by (subst rewrite_loop.simps) (simp add: ebind_def remap_dst_def)
  have step2: "rewrite_loop be inc cfg [p2] [s1] False True ?h1 = Inr (?h1\<lparr>ip_src := s\<rparr>, 2)"
    using src2 rs
    by (subst rewrite_loop.simps) (simp add: ebind_def remap_src_def)
  show ?thesis unfolding step1 step2 by simp
qed

text \<open>
  The walk over a primary chain of two entries and a secondary chain of one, for a
  destination inside the secondary chain's only \<open>from\<close> block and a source inside the
  primary chain's second \<open>from\<close> block and not its first. The primary and secondary
  chains are the function's \<^verbatim>\<open>cidrmap1\<close> and \<^verbatim>\<open>cidrmap2\<close> after the swap on the
  direction; \<open>h1\<close> is the header the walk starts from, after the direct maps. Where
  \<open>remap_ipv4\<close> returns \<open>d\<close> and \<open>s\<close> for the two fields, the walk ends after two
  passes and \<open>rewrite_ipv4l3\<close> returns 2 with both fields rewritten.
\<close>

lemma rewrite_ipv4l3_chain_walk_two:
  assumes dm: "direct_maps be inc cfg h = Inr h1"
    and chains: "(if direction = TCPR_DIR_C2S then (cidrmap1 cfg, cidrmap2 cfg)
                  else (cidrmap2 cfg, cidrmap1 cfg)) = ([p1, p2], [s1])"
    and dst: "inc (cm_from s1) (ip_dst h1)"
    and src1: "\<not> inc (cm_from p1) (ip_src h1)"
    and src2: "inc (cm_from p2) (ip_src h1)"
    and rd: "remap_ipv4 be cfg (cm_to s1) (ip_dst h1) = Inr d"
    and rs: "remap_ipv4 be cfg (cm_to p2) (ip_src h1) = Inr s"
  shows "rewrite_ipv4l3 be inc cfg h direction = Inr (h1\<lparr>ip_dst := d, ip_src := s\<rparr>, 2)"
proof (cases "direction = TCPR_DIR_C2S")
  case True
  with chains have c: "cidrmap1 cfg = [p1, p2]" "cidrmap2 cfg = [s1]" by simp_all
  show ?thesis
    using True rewrite_loop_two_one [OF dst src1 src2 rd rs]
    by (simp add: rewrite_ipv4l3_def dm ebind_def c)
next
  case False
  with chains have c: "cidrmap2 cfg = [p1, p2]" "cidrmap1 cfg = [s1]" by simp_all
  show ?thesis
    using False rewrite_loop_two_one [OF dst src1 src2 rd rs]
    by (simp add: rewrite_ipv4l3_def dm ebind_def c)
qed

lemma rewrite_ipv4l3_chain_walk_two_example:
  "ip_in_cidr True (cidr4 0x08080800 24) (ip_dst example_hdr)
   \<and> \<not> ip_in_cidr True (cidr4 0x0A000000 8) (ip_src example_hdr)
   \<and> ip_in_cidr True (cidr4 0xC0A80000 16) (ip_src example_hdr)
   \<and> rewrite_ipv4l3 True (ip_in_cidr True)
         (example_cfg\<lparr>cidrmap1 := example_primary, cidrmap2 := example_secondary\<rparr>)
         example_hdr TCPR_DIR_C2S
       = Inr (example_hdr\<lparr>ip_dst := 0x09090908, ip_src := 0x0A0A377B\<rparr>, 2)"
  using rewrite_ipv4l3_chain_walk_two
    [of True "ip_in_cidr True"
        "example_cfg\<lparr>cidrmap1 := example_primary, cidrmap2 := example_secondary\<rparr>"
        example_hdr example_hdr TCPR_DIR_C2S
        "\<lparr>cm_from = cidr4 0x0A000000 8, cm_to = cidr4 0xAC100000 16\<rparr>"
        "\<lparr>cm_from = cidr4 0xC0A80000 16, cm_to = cidr4 0x0A0A0000 16\<rparr>"
        "\<lparr>cm_from = cidr4 0x08080800 24, cm_to = cidr4 0x09090900 24\<rparr>"
        "0x09090908" "0x0A0A377B"]
  by (simp add: example_cfg_def example_primary_def example_secondary_def example_hdr_def
        cidr4_def direct_maps_def ebind_def ip_in_cidr_def ntohl_def remap_ipv4_def
        shl_u32_def htonl_def)



section \<open>Properties of truncation repair\<close>

text \<open>
  With an IPv4 header, TRUNCATE mode on a packet with \<open>len \<noteq> caplen\<close> sets \<open>len\<close> to
  \<open>caplen\<close> and the total length to \<^verbatim>\<open>htons(caplen - l2len)\<close>; with \<open>caplen = 40\<close>,
  \<open>len = 60\<close> and 14 bytes of layer 2 the total length becomes 26.
\<close>

lemma untrunc_packet_trunc_ipv4:
  assumes "fixlen cfg = TCPEDIT_FIXLEN_TRUNC" and "len pkthdr \<noteq> caplen pkthdr" and "0 \<le> l2len"
  shows "untrunc_packet be cfg l2len pkthdr pktdata (Some h) ip6_hdr
     = Inr (1, pkthdr\<lparr>len := caplen pkthdr\<rparr>, pktdata,
            Some (h\<lparr>ip_len := htons be (ucast (caplen pkthdr - word_of_int l2len))\<rparr>), ip6_hdr)"
  using assms by (auto simp add: untrunc_packet_def)

lemma untrunc_packet_trunc_ipv4_example:
  "untrunc_packet be (cfg\<lparr>fixlen := TCPEDIT_FIXLEN_TRUNC\<rparr>) 14 \<lparr>caplen = 40, len = 60\<rparr>
     pktdata (Some h) ip6_hdr
   = Inr (1, \<lparr>caplen = 40, len = 40\<rparr>, pktdata, Some (h\<lparr>ip_len := htons be 26\<rparr>), ip6_hdr)"
  by (simp add: untrunc_packet_def)

text \<open>
  Without an IPv4 header the same branch dereferences the null \<open>ip_hdr\<close>, whatever
  the lengths, as soon as the packet gets past the first test.
\<close>

lemma untrunc_packet_trunc_no_ipv4:
  assumes "fixlen cfg = TCPEDIT_FIXLEN_TRUNC" and "len pkthdr \<noteq> caplen pkthdr" and "0 \<le> l2len"
  shows "untrunc_packet be cfg l2len pkthdr pktdata None (Some h6) = Inl NullDeref"
  using assms by (auto simp add: untrunc_packet_def)

text \<open>
  Claim C5: in TRUNCATE mode a packet with \<open>len \<noteq> caplen\<close> and no IPv4 header (an
  IPv6 packet) still gets \<open>len = caplen\<close>, with no header field touched and no null
  access. The source guards the write of the total length in MTU mode
  (\<^verbatim>\<open>if (ip_hdr != NULL)\<close>) but not in TRUNCATE mode: with \<open>ip_hdr\<close> null and \<open>ip6_hdr\<close>
  present the first test lets the packet through and
  \<^verbatim>\<open>ip_hdr->ip_len = htons(pkthdr->caplen - l2len)\<close> writes through the null pointer.
\<close>

theorem untrunc_packet_trunc_ipv6_null_deref:
  "untrunc_packet be (cfg\<lparr>fixlen := TCPEDIT_FIXLEN_TRUNC\<rparr>) 14 \<lparr>caplen = 40, len = 60\<rparr>
     pktdata None (Some h6) = Inl NullDeref"
  by (simp add: untrunc_packet_def)

section \<open>Properties of the layer 7 extractor\<close>

text \<open>
  For a protocol other than TCP, UDP and ICMP, whenever \<open>extract_data\<close> returns data
  the returned pointer is the IPv4 header's own.
\<close>

lemma extract_data_unknown_proto_pointer:
  assumes "ip_p h \<noteq> IPPROTO_TCP" and "ip_p h \<noteq> IPPROTO_UDP" and "ip_p h \<noteq> IPPROTO_ICMP"
    and "extract_data be l4 l2len cap (Some (p, h)) = Inr (n, Some q)"
  shows "q = p"
  using assms by (auto simp add: extract_data_def Let_def split: if_splits)

text \<open>
  Claim C6: for an IPv4 packet whose protocol is not TCP, UDP or ICMP, \<open>extract_data\<close>
  returns the bytes that follow the IP header: the available length minus the header
  length, from the first byte past the header. The length is so, but the source's last
  branch sets \<^verbatim>\<open>dataptr = (u_char *)ip_hdr\<close> (under the comment \<^verbatim>\<open>just dump everything
  past the IP header\<close>): the bytes copied start at the IP header itself. For a GRE
  packet (protocol 47) of total length 40 with a 20-byte header at offset 14 of a
  54-byte frame, 20 bytes are returned from offset 14; the first byte past the header
  is at offset 34.
\<close>

theorem extract_data_unknown_proto_returns_header:
  "extract_data be l4 14 54
     (Some ((PktData, 14), h\<lparr>ip_hl := 5, ip_len := htons be 40, ip_p := 47\<rparr>))
     = Inr (20, Some (PktData, 14))
   \<and> ptr_add (PktData, 14) (uint (5 :: 4 word) * 4) = (PktData, 34)"
  by (cases be)
     (simp_all add: extract_data_def ntohs_def htons_def bswap16_def IPPROTO_TCP_def
        IPPROTO_UDP_def IPPROTO_ICMP_def ptr_add_def Let_def)

section \<open>Properties of the TTL rewriters\<close>

lemma saturating_sub_u8:
  "unat (if (a::u8) \<le> b then 1 else a - b) = max 1 (unat a - unat b)"
  by (auto simp add: word_le_nat_alt unat_sub max_def word_less_nat_alt)

lemma uint_sum_gt_255: "(255 < uint (a::u8) + uint (b::u8)) = (255 < unat a + unat b)"
proof -
  have "uint a + uint b = int (unat a + unat b)"
    unfolding uint_nat by simp
  then show ?thesis by linarith
qed

lemma saturating_add_u8:
  "unat (if 255 < uint (a::u8) + uint b then 255 else a + b) = min 255 (unat a + unat b)"
proof (cases "255 < unat a + unat b")
  case True
  then show ?thesis unfolding uint_sum_gt_255 by simp
next
  case False
  then have "unat a + unat b < 2 ^ LENGTH(8)" by simp
  then have "unat (a + b) = unat a + unat b"
    by (rule unat_add_lem [THEN iffD1])
  then show ?thesis using False unfolding uint_sum_gt_255 by simp
qed

lemma rewrite_ipv4_ttl_sub:
  "rewrite_ipv4_ttl (cfg\<lparr>ttl_mode := TCPEDIT_TTL_MODE_SUB\<rparr>) (Some h)
    = Inr (1, Some (h\<lparr>ip_ttl :=
        (if ip_ttl h \<le> ttl_value cfg then 1 else ip_ttl h - ttl_value cfg)\<rparr>))"
  by (simp add: rewrite_ipv4_ttl_def)

lemma rewrite_ipv4_ttl_add:
  "rewrite_ipv4_ttl (cfg\<lparr>ttl_mode := TCPEDIT_TTL_MODE_ADD\<rparr>) (Some h)
    = Inr (1, Some (h\<lparr>ip_ttl :=
        (if 255 < uint (ip_ttl h) + uint (ttl_value cfg) then 255
         else ip_ttl h + ttl_value cfg)\<rparr>))"
  by (simp add: rewrite_ipv4_ttl_def)

lemma rewrite_ipv6_hlim_sub:
  "rewrite_ipv6_hlim (cfg\<lparr>ttl_mode := TCPEDIT_TTL_MODE_SUB\<rparr>) (Some h)
    = Inr (1, Some (h\<lparr>ip6_hl :=
        (if ip6_hl h \<le> ttl_value cfg then 1 else ip6_hl h - ttl_value cfg)\<rparr>))"
  by (simp add: rewrite_ipv6_hlim_def)

lemma rewrite_ipv6_hlim_add:
  "rewrite_ipv6_hlim (cfg\<lparr>ttl_mode := TCPEDIT_TTL_MODE_ADD\<rparr>) (Some h)
    = Inr (1, Some (h\<lparr>ip6_hl :=
        (if 255 < uint (ip6_hl h) + uint (ttl_value cfg) then 255
         else ip6_hl h + ttl_value cfg)\<rparr>))"
  by (simp add: rewrite_ipv6_hlim_def)

text \<open>
  Claim C8: for every TTL or hop limit and every configured value, SUBTRACT mode leaves
  a TTL of at least 1 (the difference, or 1 when it would be below 1), ADD mode leaves
  at most 255 (the sum, or 255 when it would be above), and SET mode with the current
  TTL as value returns 0 and leaves the header as it was. Both for \<open>rewrite_ipv4_ttl\<close>
  and for \<open>rewrite_ipv6_hlim\<close>.
\<close>

theorem ttl_rewrite_saturates:
  "(\<exists>t. rewrite_ipv4_ttl (cfg\<lparr>ttl_mode := TCPEDIT_TTL_MODE_SUB\<rparr>) (Some h)
          = Inr (1, Some (h\<lparr>ip_ttl := t\<rparr>))
        \<and> unat t = max 1 (unat (ip_ttl h) - unat (ttl_value cfg)) \<and> 1 \<le> unat t)
 \<and> (\<exists>t. rewrite_ipv4_ttl (cfg\<lparr>ttl_mode := TCPEDIT_TTL_MODE_ADD\<rparr>) (Some h)
          = Inr (1, Some (h\<lparr>ip_ttl := t\<rparr>))
        \<and> unat t = min 255 (unat (ip_ttl h) + unat (ttl_value cfg)) \<and> unat t \<le> 255)
 \<and> rewrite_ipv4_ttl (cfg\<lparr>ttl_mode := TCPEDIT_TTL_MODE_SET, ttl_value := ip_ttl h\<rparr>) (Some h)
       = Inr (0, Some h)
 \<and> (\<exists>t. rewrite_ipv6_hlim (cfg\<lparr>ttl_mode := TCPEDIT_TTL_MODE_SUB\<rparr>) (Some h6)
          = Inr (1, Some (h6\<lparr>ip6_hl := t\<rparr>))
        \<and> unat t = max 1 (unat (ip6_hl h6) - unat (ttl_value cfg)) \<and> 1 \<le> unat t)
 \<and> (\<exists>t. rewrite_ipv6_hlim (cfg\<lparr>ttl_mode := TCPEDIT_TTL_MODE_ADD\<rparr>) (Some h6)
          = Inr (1, Some (h6\<lparr>ip6_hl := t\<rparr>))
        \<and> unat t = min 255 (unat (ip6_hl h6) + unat (ttl_value cfg)) \<and> unat t \<le> 255)
 \<and> rewrite_ipv6_hlim (cfg\<lparr>ttl_mode := TCPEDIT_TTL_MODE_SET, ttl_value := ip6_hl h6\<rparr>) (Some h6)
       = Inr (0, Some h6)"
proof (intro conjI)
  show "\<exists>t. rewrite_ipv4_ttl (cfg\<lparr>ttl_mode := TCPEDIT_TTL_MODE_SUB\<rparr>) (Some h)
          = Inr (1, Some (h\<lparr>ip_ttl := t\<rparr>))
        \<and> unat t = max 1 (unat (ip_ttl h) - unat (ttl_value cfg)) \<and> 1 \<le> unat t"
    unfolding rewrite_ipv4_ttl_sub using saturating_sub_u8 [of "ip_ttl h" "ttl_value cfg"]
    by (intro exI conjI) (rule refl, assumption, simp)
  show "\<exists>t. rewrite_ipv4_ttl (cfg\<lparr>ttl_mode := TCPEDIT_TTL_MODE_ADD\<rparr>) (Some h)
          = Inr (1, Some (h\<lparr>ip_ttl := t\<rparr>))
        \<and> unat t = min 255 (unat (ip_ttl h) + unat (ttl_value cfg)) \<and> unat t \<le> 255"
    unfolding rewrite_ipv4_ttl_add using saturating_add_u8 [of "ip_ttl h" "ttl_value cfg"]
    by (intro exI conjI) (rule refl, assumption, simp)
  show "rewrite_ipv4_ttl (cfg\<lparr>ttl_mode := TCPEDIT_TTL_MODE_SET, ttl_value := ip_ttl h\<rparr>) (Some h)
       = Inr (0, Some h)"
    by (simp add: rewrite_ipv4_ttl_def)
  show "\<exists>t. rewrite_ipv6_hlim (cfg\<lparr>ttl_mode := TCPEDIT_TTL_MODE_SUB\<rparr>) (Some h6)
          = Inr (1, Some (h6\<lparr>ip6_hl := t\<rparr>))
        \<and> unat t = max 1 (unat (ip6_hl h6) - unat (ttl_value cfg)) \<and> 1 \<le> unat t"
    unfolding rewrite_ipv6_hlim_sub using saturating_sub_u8 [of "ip6_hl h6" "ttl_value cfg"]
    by (intro exI conjI) (rule refl, assumption, simp)
  show "\<exists>t. rewrite_ipv6_hlim (cfg\<lparr>ttl_mode := TCPEDIT_TTL_MODE_ADD\<rparr>) (Some h6)
          = Inr (1, Some (h6\<lparr>ip6_hl := t\<rparr>))
        \<and> unat t = min 255 (unat (ip6_hl h6) + unat (ttl_value cfg)) \<and> unat t \<le> 255"
    unfolding rewrite_ipv6_hlim_add using saturating_add_u8 [of "ip6_hl h6" "ttl_value cfg"]
    by (intro exI conjI) (rule refl, assumption, simp)
  show "rewrite_ipv6_hlim (cfg\<lparr>ttl_mode := TCPEDIT_TTL_MODE_SET, ttl_value := ip6_hl h6\<rparr>) (Some h6)
       = Inr (0, Some h6)"
    by (simp add: rewrite_ipv6_hlim_def)
qed

section \<open>Properties of the checksum fix\<close>

text \<open>
  Claim C9: for a packet with \<open>caplen < len\<close>, \<open>fix_ipv4_checksums\<close> recomputes no
  layer 4 checksum and still recomputes the IP header one; the layer 4 recomputation
  also needs the low 13 bits of the fragment offset field to be zero. With
  \<open>caplen < len\<close>, and likewise with a non-zero fragment offset, the packet returned is
  the one \<^verbatim>\<open>do_checksum\<close> leaves for \<^verbatim>\<open>IPPROTO_IP\<close> over the total length, applied to
  the packet as it came; that call is the only one made, and the status is its own
  (ERROR when it is negative). When the packet is whole and those bits are zero,
  \<^verbatim>\<open>do_checksum\<close> runs first for the header's protocol over the total length less the
  header length; unless it fails, the IP header checksum runs on the packet it leaves.
\<close>

theorem fix_ipv4_checksums_l4_gate:
  "(caplen pkthdr < len pkthdr \<longrightarrow>
      fix_ipv4_checksums be do_checksum pkthdr pkt =
        (let l3_len = uint (ntohs be (ip_len (fst pkt)));
             r = do_checksum pkt IPPROTO_IP l3_len
         in (if fst r < 0 then TCPEDIT_ERROR
             else if fst r = TCPEDIT_WARN then TCPEDIT_WARN else TCPEDIT_OK,
             snd r, [(IPPROTO_IP, l3_len)])))
 \<and> (htons be (ip_off (fst pkt)) AND IP_OFFMASK \<noteq> 0 \<longrightarrow>
      fix_ipv4_checksums be do_checksum pkthdr pkt =
        (let l3_len = uint (ntohs be (ip_len (fst pkt)));
             r = do_checksum pkt IPPROTO_IP l3_len
         in (if fst r < 0 then TCPEDIT_ERROR
             else if fst r = TCPEDIT_WARN then TCPEDIT_WARN else TCPEDIT_OK,
             snd r, [(IPPROTO_IP, l3_len)])))
 \<and> (caplen pkthdr = len pkthdr \<and> htons be (ip_off (fst pkt)) AND IP_OFFMASK = 0 \<longrightarrow>
      fix_ipv4_checksums be do_checksum pkthdr pkt =
        (let l4_len = uint (ntohs be (ip_len (fst pkt))) - uint (ip_hl (fst pkt)) * 4;
             r1 = do_checksum pkt (ip_p (fst pkt)) l4_len;
             l3_len = uint (ntohs be (ip_len (fst (snd r1))));
             r2 = do_checksum (snd r1) IPPROTO_IP l3_len
         in if fst r1 < 0 then (TCPEDIT_ERROR, snd r1, [(ip_p (fst pkt), l4_len)])
            else (if fst r2 < 0 then TCPEDIT_ERROR
                  else if fst r1 = TCPEDIT_WARN \<or> fst r2 = TCPEDIT_WARN then TCPEDIT_WARN
                  else TCPEDIT_OK,
                  snd r2, [(ip_p (fst pkt), l4_len), (IPPROTO_IP, l3_len)])))"
  by (auto simp add: fix_ipv4_checksums_def Let_def TCPEDIT_WARN_def split: prod.splits)

theorem fix_ipv4_checksums_l4_gate_example:
  "fix_ipv4_checksums True example_checksum \<lparr>caplen = 40, len = 60\<rparr> (example_hdr, [])
     = (TCPEDIT_WARN, (example_hdr\<lparr>ip_sum := 40\<rparr>, [IPPROTO_IP]), [(IPPROTO_IP, 40)])
 \<and> fix_ipv4_checksums True example_checksum \<lparr>caplen = 40, len = 40\<rparr>
       (example_hdr\<lparr>ip_off := 185\<rparr>, [])
     = (TCPEDIT_WARN, (example_hdr\<lparr>ip_off := 185, ip_sum := 40\<rparr>, [IPPROTO_IP]),
        [(IPPROTO_IP, 40)])
 \<and> fix_ipv4_checksums True example_checksum \<lparr>caplen = 40, len = 40\<rparr> (example_hdr, [])
     = (TCPEDIT_WARN, (example_hdr\<lparr>ip_sum := 40\<rparr>, [IPPROTO_TCP, IPPROTO_IP]),
        [(IPPROTO_TCP, 20), (IPPROTO_IP, 40)])"
  using fix_ipv4_checksums_l4_gate
      [where be = True and do_checksum = example_checksum
         and pkthdr = "\<lparr>caplen = 40, len = 60\<rparr>" and pkt = "(example_hdr, [])"]
    fix_ipv4_checksums_l4_gate
      [where be = True and do_checksum = example_checksum
         and pkthdr = "\<lparr>caplen = 40, len = 40\<rparr>" and pkt = "(example_hdr\<lparr>ip_off := 185\<rparr>, [])"]
    fix_ipv4_checksums_l4_gate
      [where be = True and do_checksum = example_checksum
         and pkthdr = "\<lparr>caplen = 40, len = 40\<rparr>" and pkt = "(example_hdr, [])"]
  by (simp add: example_hdr_def example_checksum_def htons_def ntohs_def IP_OFFMASK_def
        IPPROTO_IP_def IPPROTO_TCP_def TCPEDIT_WARN_def Let_def)

end
